theory Spec2Isabelle
  imports Complex_Main
begin

section \<open>Numbers, vectors and errors\<close>

text \<open>
  The geometry types of \<^verbatim>\<open>arcade.types\<close> compute with Python floats. They are
  modelled here as \<^typ>\<open>real\<close>: arithmetic is exact, and the values NaN and
  infinity are not part of the model. Every input used below in a concrete evaluation
  is a small integer or a half, which a float represents exactly, so the evaluations
  agree with what Python computes.

  Python raises \<^verbatim>\<open>ZeroDivisionError\<close> when a float is divided by zero; in HOL
  \<open>a / 0 = 0\<close>. A function of the source that divides returns a sum, with the
  exception on the left.
\<close>

datatype py_error = ZeroDivisionError

record Vec2 =
  vec_x :: real
  vec_y :: real

type_synonym Point3 = "real \<times> real \<times> real"

text \<open>\<^verbatim>\<open>class AnchorPoint\<close>: nine constants, each a fraction of width and height.\<close>

definition BOTTOM_LEFT :: Vec2 where
  "BOTTOM_LEFT = \<lparr>vec_x = 0, vec_y = 0\<rparr>"

definition BOTTOM_CENTER :: Vec2 where
  "BOTTOM_CENTER = \<lparr>vec_x = 1/2, vec_y = 0\<rparr>"

definition BOTTOM_RIGHT :: Vec2 where
  "BOTTOM_RIGHT = \<lparr>vec_x = 1, vec_y = 0\<rparr>"

definition CENTER_LEFT :: Vec2 where
  "CENTER_LEFT = \<lparr>vec_x = 0, vec_y = 1/2\<rparr>"

definition CENTER :: Vec2 where
  "CENTER = \<lparr>vec_x = 1/2, vec_y = 1/2\<rparr>"

definition CENTER_RIGHT :: Vec2 where
  "CENTER_RIGHT = \<lparr>vec_x = 1, vec_y = 1/2\<rparr>"

definition TOP_LEFT :: Vec2 where
  "TOP_LEFT = \<lparr>vec_x = 0, vec_y = 1\<rparr>"

definition TOP_CENTER :: Vec2 where
  "TOP_CENTER = \<lparr>vec_x = 1/2, vec_y = 1\<rparr>"

definition TOP_RIGHT :: Vec2 where
  "TOP_RIGHT = \<lparr>vec_x = 1, vec_y = 1\<rparr>"


section \<open>Rect\<close>

text \<open>
  \<^verbatim>\<open>class Rect(NamedTuple)\<close>: eight stored fields, in the order of the tuple. The
  fields carry the prefix \<open>rect_\<close> because \<open>Box\<close> below has fields of the same
  names (and \<open>top\<close> is a constant of HOL).
\<close>

record Rect =
  rect_left :: real
  rect_right :: real
  rect_bottom :: real
  rect_top :: real
  rect_width :: real
  rect_height :: real
  rect_x :: real
  rect_y :: real

subsection \<open>The named constructors\<close>

text \<open>\<^verbatim>\<open>LRBT.as_new_attrs\<close>, passed on to \<^verbatim>\<open>Rect.__new__\<close>.\<close>

definition LRBT :: "real \<Rightarrow> real \<Rightarrow> real \<Rightarrow> real \<Rightarrow> Rect" where
  "LRBT left right bottom top' =
     (let width = right - left;
          height = top' - bottom;
          x = left + (width / 2);
          y = bottom + (height / 2)
      in \<lparr>rect_left = left, rect_right = right, rect_bottom = bottom, rect_top = top',
          rect_width = width, rect_height = height, rect_x = x, rect_y = y\<rparr>)"

text \<open>\<^verbatim>\<open>LBWH.as_new_attrs\<close>.\<close>

definition LBWH :: "real \<Rightarrow> real \<Rightarrow> real \<Rightarrow> real \<Rightarrow> Rect" where
  "LBWH left bottom width height =
     (let right = left + width;
          top' = bottom + height;
          x = left + (width / 2);
          y = bottom + (height / 2)
      in \<lparr>rect_left = left, rect_right = right, rect_bottom = bottom, rect_top = top',
          rect_width = width, rect_height = height, rect_x = x, rect_y = y\<rparr>)"

text \<open>
  \<^verbatim>\<open>XYWH.to_rect_attrs\<close>. The source computes \<^verbatim>\<open>bottom = y - (width / 2)\<close> and
  \<^verbatim>\<open>top = y + (width / 2)\<close>; the model does the same.
\<close>

definition XYWH :: "real \<Rightarrow> real \<Rightarrow> real \<Rightarrow> real \<Rightarrow> Rect" where
  "XYWH x y width height =
     (let left = x - (width / 2);
          right = x + (width / 2);
          bottom = y - (width / 2);
          top' = y + (width / 2)
      in \<lparr>rect_left = left, rect_right = right, rect_bottom = bottom, rect_top = top',
          rect_width = width, rect_height = height, rect_x = x, rect_y = y\<rparr>)"

text \<open>
  \<^verbatim>\<open>XYRR.to_rect_attrs\<close>: \<^verbatim>\<open>bottom = y - half_width\<close>, \<^verbatim>\<open>top = y + half_width\<close>,
  and the stored size is twice the half extents.
\<close>

definition XYRR :: "real \<Rightarrow> real \<Rightarrow> real \<Rightarrow> real \<Rightarrow> Rect" where
  "XYRR x y half_width half_height =
     (let left = x - half_width;
          right = x + half_width;
          bottom = y - half_width;
          top' = y + half_width
      in \<lparr>rect_left = left, rect_right = right, rect_bottom = bottom, rect_top = top',
          rect_width = half_width * 2, rect_height = half_height * 2,
          rect_x = x, rect_y = y\<rparr>)"

text \<open>
  \<^verbatim>\<open>Viewport.to_rect_attrs\<close> takes Python ints; \<^verbatim>\<open>width / 2\<close> is true division.
\<close>

definition Viewport :: "int \<Rightarrow> int \<Rightarrow> int \<Rightarrow> int \<Rightarrow> Rect" where
  "Viewport x y width height =
     (let left = real_of_int x - (real_of_int width / 2);
          right = real_of_int x + (real_of_int width / 2);
          bottom = real_of_int y - (real_of_int width / 2);
          top' = real_of_int y + (real_of_int width / 2)
      in \<lparr>rect_left = left, rect_right = right, rect_bottom = bottom, rect_top = top',
          rect_width = real_of_int width, rect_height = real_of_int height,
          rect_x = real_of_int x, rect_y = real_of_int y\<rparr>)"

subsection \<open>Truthiness\<close>

text \<open>
  \<^verbatim>\<open>Rect\<close> defines neither \<^verbatim>\<open>__bool__\<close> nor \<^verbatim>\<open>__len__\<close>. It is a
  \<^verbatim>\<open>NamedTuple\<close>, so \<^verbatim>\<open>bool(r)\<close> is the truthiness of a tuple: its length is
  not zero. The length is the number of fields.
\<close>

definition rect_len :: "Rect \<Rightarrow> nat" where
  "rect_len r = length [rect_left r, rect_right r, rect_bottom r, rect_top r,
                        rect_width r, rect_height r, rect_x r, rect_y r]"

definition rect_bool :: "Rect \<Rightarrow> bool" where
  "rect_bool r = (rect_len r \<noteq> 0)"

subsection \<open>Transformations\<close>

text \<open>\<^verbatim>\<open>Rect.at_position\<close> and \<^verbatim>\<open>Rect.move\<close> rebuild the rect through \<open>XYWH\<close>.\<close>

definition rect_at_position :: "Rect \<Rightarrow> Vec2 \<Rightarrow> Rect" where
  "rect_at_position self position =
     XYWH (vec_x position) (vec_y position) (rect_width self) (rect_height self)"

definition rect_move :: "Rect \<Rightarrow> real \<Rightarrow> real \<Rightarrow> Rect" where
  "rect_move self dx dy =
     XYWH (rect_x self + dx) (rect_y self + dy) (rect_width self) (rect_height self)"

text \<open>
  \<^verbatim>\<open>Rect.resize\<close>. The two divisions raise when the stored width or height is zero.
  The last line of the source is
  \<^verbatim>\<open>LRBT(adjusted_left, adjusted_right, adjusted_top, adjusted_bottom)\<close>: the third
  argument of \<open>LRBT\<close> is its bottom and the fourth its top.
\<close>

definition rect_resize :: "Rect \<Rightarrow> Vec2 \<Rightarrow> Vec2 \<Rightarrow> py_error + Rect" where
  "rect_resize self new_size anchor =
     (let anchor_x = rect_left self + vec_x anchor * rect_width self;
          anchor_y = rect_bottom self + vec_y anchor * rect_height self
      in if rect_width self = 0 then Inl ZeroDivisionError
         else let ratio_x = vec_x new_size / rect_width self
         in if rect_height self = 0 then Inl ZeroDivisionError
         else let ratio_y = vec_y new_size / rect_height self;
                  adjusted_left = anchor_x + (rect_left self - anchor_x) * ratio_x;
                  adjusted_right = anchor_x + (rect_right self - anchor_x) * ratio_x;
                  adjusted_top = anchor_y + (rect_top self - anchor_y) * ratio_y;
                  adjusted_bottom = anchor_y + (rect_bottom self - anchor_y) * ratio_y
         in Inr (LRBT adjusted_left adjusted_right adjusted_top adjusted_bottom))"

text \<open>\<^verbatim>\<open>Rect.scale\<close>: no division; the same final call.\<close>

definition rect_scale :: "Rect \<Rightarrow> real \<Rightarrow> Vec2 \<Rightarrow> Rect" where
  "rect_scale self new_scale anchor =
     (let anchor_x = rect_left self + vec_x anchor * rect_width self;
          anchor_y = rect_bottom self + vec_y anchor * rect_height self;
          adjusted_left = anchor_x + (rect_left self - anchor_x) * new_scale;
          adjusted_right = anchor_x + (rect_right self - anchor_x) * new_scale;
          adjusted_top = anchor_y + (rect_top self - anchor_y) * new_scale;
          adjusted_bottom = anchor_y + (rect_bottom self - anchor_y) * new_scale
      in LRBT adjusted_left adjusted_right adjusted_top adjusted_bottom)"

text \<open>
  The world-space point at fraction \<open>anchor\<close> of a rect, as both methods compute it
  in their first two lines.
\<close>

definition anchor_point :: "Rect \<Rightarrow> Vec2 \<Rightarrow> Vec2" where
  "anchor_point r anchor =
     \<lparr>vec_x = rect_left r + vec_x anchor * rect_width r,
      vec_y = rect_bottom r + vec_y anchor * rect_height r\<rparr>"

subsection \<open>Size limits\<close>

text \<open>
  \<^verbatim>\<open>width or 0.0\<close>: Python's \<^verbatim>\<open>or\<close> yields its right operand when the left one
  is falsy, that is \<^verbatim>\<open>None\<close> or zero.
\<close>

definition py_or :: "real option \<Rightarrow> real \<Rightarrow> real" where
  "py_or v d = (case v of None \<Rightarrow> d | Some a \<Rightarrow> if a = 0 then d else a)"

text \<open>
  \<^verbatim>\<open>width or float("inf")\<close>: the right operand is infinity, which \<^typ>\<open>real\<close> does
  not have; \<open>None\<close> stands for it in the result. \<^verbatim>\<open>min(float("inf"), w)\<close> is
  \<open>w\<close> for every finite \<open>w\<close>.
\<close>

definition py_or_inf :: "real option \<Rightarrow> real option" where
  "py_or_inf v = (case v of None \<Rightarrow> None | Some a \<Rightarrow> if a = 0 then None else Some a)"

definition min_inf :: "real option \<Rightarrow> real \<Rightarrow> real" where
  "min_inf c w = (case c of None \<Rightarrow> w | Some a \<Rightarrow> min a w)"

definition rect_min_size :: "Rect \<Rightarrow> real option \<Rightarrow> real option \<Rightarrow> Rect" where
  "rect_min_size self width height =
     (let left = rect_left self;
          bottom = rect_bottom self;
          width' = max (py_or width 0) (rect_width self);
          height' = max (py_or height 0) (rect_height self)
      in LBWH left bottom width' height')"

definition rect_max_size :: "Rect \<Rightarrow> real option \<Rightarrow> real option \<Rightarrow> Rect" where
  "rect_max_size self width height =
     (let left = rect_left self;
          bottom = rect_bottom self;
          width' = min_inf (py_or_inf width) (rect_width self);
          height' = min_inf (py_or_inf height) (rect_height self)
      in LBWH left bottom width' height')"

subsection \<open>Set operations and queries\<close>

definition rect_union :: "Rect \<Rightarrow> Rect \<Rightarrow> Rect" where
  "rect_union self other =
     (let left = min (rect_left self) (rect_left other);
          right = max (rect_right self) (rect_right other);
          bottom = min (rect_bottom self) (rect_bottom other);
          top' = max (rect_top self) (rect_top other)
      in LRBT left right bottom top')"

definition rect_overlaps :: "Rect \<Rightarrow> Rect \<Rightarrow> bool" where
  "rect_overlaps self other =
     (let u = rect_union self other
      in rect_width u > 0 \<or> rect_height u > 0)"

definition rect_collides :: "Rect \<Rightarrow> Rect \<Rightarrow> bool" where
  "rect_collides self other =
     ((rect_right self \<ge> rect_left other \<and> rect_right other \<ge> rect_left self) \<and>
      (rect_top self \<ge> rect_bottom other \<and> rect_top other \<ge> rect_bottom self))"

definition rect_intersect :: "Rect \<Rightarrow> Rect \<Rightarrow> Rect option" where
  "rect_intersect self other =
     (let intersecting = rect_collides self other
      in if \<not> intersecting then None
         else let left = max (rect_left self) (rect_left other);
                  right = min (rect_right self) (rect_right other);
                  bottom = max (rect_bottom self) (rect_bottom other);
                  top' = min (rect_top self) (rect_top other)
              in Some (LRBT left right bottom top'))"

text \<open>\<^verbatim>\<open>self.left < point.x < self.right\<close> is a chained comparison.\<close>

definition point_in_rect :: "Rect \<Rightarrow> Vec2 \<Rightarrow> bool" where
  "point_in_rect self point =
     ((rect_left self < vec_x point \<and> vec_x point < rect_right self) \<and>
      (rect_bottom self < vec_y point \<and> vec_y point < rect_top self))"


section \<open>Box\<close>

record Box =
  box_left :: real
  box_right :: real
  box_bottom :: real
  box_top :: real
  box_near :: real
  box_far :: real
  box_width :: real
  box_height :: real
  box_depth :: real
  box_x :: real
  box_y :: real
  box_z :: real

definition XYZWHD :: "real \<Rightarrow> real \<Rightarrow> real \<Rightarrow> real \<Rightarrow> real \<Rightarrow> real \<Rightarrow> Box" where
  "XYZWHD x y z width height depth =
     (let h_width = width / 2;
          h_height = height / 2;
          h_depth = depth / 2
      in \<lparr>box_left = x - h_width, box_right = x + h_width,
          box_bottom = y - h_height, box_top = y + h_height,
          box_near = z - h_depth, box_far = z + h_depth,
          box_width = width, box_height = height, box_depth = depth,
          box_x = x, box_y = y, box_z = z\<rparr>)"

definition LRBTNF :: "real \<Rightarrow> real \<Rightarrow> real \<Rightarrow> real \<Rightarrow> real \<Rightarrow> real \<Rightarrow> Box" where
  "LRBTNF left right bottom top' near far =
     (let width = right - left;
          height = top' - bottom;
          depth = far - near
      in \<lparr>box_left = left, box_right = right,
          box_bottom = bottom, box_top = top',
          box_near = near, box_far = far,
          box_width = width, box_height = height, box_depth = depth,
          box_x = left + width / 2, box_y = bottom + height / 2,
          box_z = near + depth / 2\<rparr>)"

definition box_union :: "Box \<Rightarrow> Box \<Rightarrow> Box" where
  "box_union self other =
     (let left = min (box_left self) (box_left other);
          right = max (box_right self) (box_right other);
          bottom = min (box_bottom self) (box_bottom other);
          top' = max (box_top self) (box_top other);
          near = min (box_near self) (box_near other);
          far = max (box_far self) (box_far other)
      in LRBTNF left right bottom top' near far)"

definition box_overlaps :: "Box \<Rightarrow> Box \<Rightarrow> bool" where
  "box_overlaps self other =
     ((box_width other + box_width self) / 2 > \<bar>box_x self - box_x other\<bar>
      \<and> (box_height other + box_height self) / 2 > \<bar>box_y self - box_y other\<bar>
      \<and> (box_depth other + box_depth self) / 2 > \<bar>box_z self - box_z other\<bar>)"

definition box_intersection :: "Box \<Rightarrow> Box \<Rightarrow> Box option" where
  "box_intersection self other =
     (let intersecting = box_overlaps self other
      in if \<not> intersecting then None
         else let left = max (box_left self) (box_left other);
                  right = min (box_right self) (box_right other);
                  bottom = max (box_bottom self) (box_bottom other);
                  top' = min (box_top self) (box_top other);
                  near = max (box_near self) (box_near other);
                  far = min (box_far self) (box_far other)
              in Some (LRBTNF left right bottom top' near far))"

text \<open>\<^verbatim>\<open>Box.point_in_box\<close> unpacks the point and compares with \<^verbatim>\<open><=\<close>.\<close>

definition point_in_box :: "Box \<Rightarrow> Point3 \<Rightarrow> bool" where
  "point_in_box self point =
     (case point of (x, y, z) \<Rightarrow>
        (box_left self \<le> x \<and> x \<le> box_right self)
        \<and> (box_bottom self \<le> y \<and> y \<le> box_top self)
        \<and> (box_near self \<le> z \<and> z \<le> box_far self))"

text \<open>\<^verbatim>\<open>Box.__contains__\<close>, the \<^verbatim>\<open>in\<close> operator.\<close>

definition box_contains :: "Box \<Rightarrow> Point3 \<Rightarrow> bool" where
  "box_contains self point = point_in_box self point"

text \<open>\<^verbatim>\<open>Box.__bool__\<close>, which \<open>Rect\<close> has no counterpart of.\<close>

definition box_bool :: "Box \<Rightarrow> bool" where
  "box_bool self = (box_width self \<noteq> 0 \<and> box_height self \<noteq> 0 \<and> box_depth self \<noteq> 0)"


section \<open>Drawing a parabola\<close>

text \<open>
  \<^verbatim>\<open>draw_parabola_filled\<close> returns nothing; all it does is call the arc primitive
  \<^verbatim>\<open>draw_arc_filled\<close> of the module \<^verbatim>\<open>arcade.draw.arc\<close>. The primitive draws on the
  window, which is a state \<open>'w\<close> here, and is a parameter of the model: an action on
  that state, taking the eight arguments of the call in the order of the source.
\<close>

type_synonym RGBA255 = "int list"

type_synonym 'w arc_primitive =
  "real \<Rightarrow> real \<Rightarrow> real \<Rightarrow> real \<Rightarrow> RGBA255 \<Rightarrow> real \<Rightarrow> real \<Rightarrow> real \<Rightarrow> 'w \<Rightarrow> 'w"

definition draw_parabola_filled ::
  "'w arc_primitive \<Rightarrow> real \<Rightarrow> real \<Rightarrow> real \<Rightarrow> real \<Rightarrow> RGBA255 \<Rightarrow> real \<Rightarrow> 'w \<Rightarrow> 'w" where
  "draw_parabola_filled draw_arc_filled start_x start_y end_x height color tilt_angle =
     (let center_x = (start_x + end_x) / 2;
          center_y = start_y + height;
          start_angle = 0;
          end_angle = 180;
          width = start_x - end_x
      in draw_arc_filled center_x center_y width height color start_angle end_angle tilt_angle)"

text \<open>
  To count calls, the window is taken to be the list of the calls made so far, and the
  primitive the action that appends its own call.
\<close>

datatype arc_call = ArcFilled real real real real RGBA255 real real real

definition log_arc_filled :: "arc_call list arc_primitive" where
  "log_arc_filled center_x center_y width height color start_angle end_angle tilt_angle calls =
     calls @ [ArcFilled center_x center_y width height color start_angle end_angle tilt_angle]"


section \<open>The consistency of the stored fields\<close>

text \<open>
  A rect stores eight fields, of which four determine the rest. The stored fields of
  \<open>r\<close> are consistent when the size is the distance between the edges and the centre
  lies halfway between them.
\<close>

definition rect_consistent :: "Rect \<Rightarrow> bool" where
  "rect_consistent r =
     (rect_right r - rect_left r = rect_width r \<and>
      rect_top r - rect_bottom r = rect_height r \<and>
      rect_x r = rect_left r + rect_width r / 2 \<and>
      rect_y r = rect_bottom r + rect_height r / 2)"


section \<open>Properties of the constructors\<close>

lemma LRBT_consistent: "rect_consistent (LRBT l r b t)"
  by (simp add: rect_consistent_def LRBT_def Let_def)

lemma LBWH_consistent: "rect_consistent (LBWH l b w h)"
  by (simp add: rect_consistent_def LBWH_def Let_def)

lemma XYWH_consistent_iff: "rect_consistent (XYWH x y w h) \<longleftrightarrow> w = h"
  by (auto simp add: rect_consistent_def XYWH_def Let_def)

lemma XYZWHD_extents:
  "box_right (XYZWHD x y z w h d) - box_left (XYZWHD x y z w h d) = w \<and>
   box_top (XYZWHD x y z w h d) - box_bottom (XYZWHD x y z w h d) = h \<and>
   box_far (XYZWHD x y z w h d) - box_near (XYZWHD x y z w h d) = d"
  by (simp add: XYZWHD_def Let_def)

text \<open>
  C1. Every rect made by \<open>LRBT\<close>, \<open>LBWH\<close>, \<open>XYWH\<close>, \<open>XYRR\<close> or \<open>Viewport\<close>
  should have consistent fields: right - left = width, top - bottom = height,
  x = left + width/2 and y = bottom + height/2. The two constructors from edges do
  (\<open>LRBT_consistent\<close>, \<open>LBWH_consistent\<close>). The three constructors from a centre
  take the vertical bounds from the width, so a rect that is not square is
  inconsistent: \<open>XYWH(0, 0, 2, 4)\<close> has top - bottom = 2 and height 4, and
  bottom + height/2 = 1 with y = 0. The box constructor \<open>XYZWHD\<close> uses the half
  height there (\<open>XYZWHD_extents\<close>).
\<close>

theorem XYWH_breaks_invariants:
  "rect_top (XYWH 0 0 2 4) - rect_bottom (XYWH 0 0 2 4) = 2 \<and>
   rect_height (XYWH 0 0 2 4) = 4 \<and>
   rect_bottom (XYWH 0 0 2 4) + rect_height (XYWH 0 0 2 4) / 2 = 1 \<and>
   rect_y (XYWH 0 0 2 4) = 0 \<and>
   \<not> rect_consistent (XYWH 0 0 2 4) \<and>
   \<not> rect_consistent (XYRR 0 0 1 2) \<and>
   \<not> rect_consistent (Viewport 0 0 2 4)"
  by (simp add: rect_consistent_def XYWH_def XYRR_def Viewport_def Let_def)

text \<open>
  C4. \<open>XYWH(x, y, w, h)\<close> is the rect with left = x - w/2, right = x + w/2,
  bottom = y - w/2, top = y + w/2, stored width w, stored height h and centre (x, y):
  the vertical bounds come from the width. \<open>XYRR(x, y, half_width, half_height)\<close>
  likewise has bottom = y - half_width and top = y + half_width.
\<close>

theorem center_constructors_use_width_for_vertical_bounds:
  "XYWH x y w h =
     \<lparr>rect_left = x - w / 2, rect_right = x + w / 2,
      rect_bottom = y - w / 2, rect_top = y + w / 2,
      rect_width = w, rect_height = h, rect_x = x, rect_y = y\<rparr> \<and>
   rect_bottom (XYRR x y half_width half_height) = y - half_width \<and>
   rect_top (XYRR x y half_width half_height) = y + half_width"
  by (simp add: XYWH_def XYRR_def Let_def)


section \<open>Properties of the transformations\<close>

text \<open>
  What \<open>rect_resize\<close> does to a consistent rect of non-zero size: it returns a rect,
  whose width is the requested one, whose height is the negated requested one, and
  whose anchor point has the abscissa of the original's.
\<close>

lemma resize_consistent:
  assumes "rect_consistent r" and "rect_width r \<noteq> 0" and "rect_height r \<noteq> 0"
  shows "\<exists>r'. rect_resize r s a = Inr r' \<and>
              rect_width r' = vec_x s \<and> rect_height r' = - vec_y s \<and>
              vec_x (anchor_point r' a) = vec_x (anchor_point r a)"
proof -
  from assms(1)
  have rl: "rect_right r = rect_left r + rect_width r"
    and tb: "rect_top r = rect_bottom r + rect_height r"
    by (simp_all add: rect_consistent_def)
  let ?ax = "rect_left r + vec_x a * rect_width r"
  let ?ay = "rect_bottom r + vec_y a * rect_height r"
  let ?rx = "vec_x s / rect_width r"
  let ?ry = "vec_y s / rect_height r"
  let ?r' = "LRBT (?ax + (rect_left r - ?ax) * ?rx) (?ax + (rect_right r - ?ax) * ?rx)
                  (?ay + (rect_top r - ?ay) * ?ry) (?ay + (rect_bottom r - ?ay) * ?ry)"
  have res: "rect_resize r s a = Inr ?r'"
    using assms(2,3) by (simp add: rect_resize_def Let_def)
  have w: "rect_width ?r' = vec_x s"
    using assms(2) by (simp add: LRBT_def Let_def rl field_simps)
  have h: "rect_height ?r' = - vec_y s"
    using assms(3) by (simp add: LRBT_def Let_def tb field_simps)
  have "rect_left ?r' + vec_x a * rect_width ?r' = ?ax"
    using assms(2) unfolding w by (simp add: LRBT_def Let_def field_simps)
  then have ax: "vec_x (anchor_point ?r' a) = vec_x (anchor_point r a)"
    by (simp add: anchor_point_def)
  from res w h ax show ?thesis by blast
qed

text \<open>
  C2. For a rect of non-zero width and height, \<open>resize(s, anchor)\<close> should return a
  rect of width \<open>s.x\<close> and height \<open>s.y\<close> whose point at fraction \<open>anchor\<close> is that
  of the original, and \<open>scale(factor, anchor)\<close> should keep the anchor point fixed
  too. Both methods pass the adjusted top where \<open>LRBT\<close> takes the bottom and the
  adjusted bottom where it takes the top. Resizing \<open>LRBT(0, 10, 0, 10)\<close> to
  (20, 20) about the centre gives \<open>LRBT(-5, 15, 15, -5)\<close>, of height -20; scaling
  it by 2 about its bottom-left corner (0, 0) gives \<open>LRBT(0, 20, 20, 0)\<close>, whose
  bottom-left anchor point is (0, 20).
\<close>

theorem resize_swaps_bottom_and_top:
  "rect_resize (LRBT 0 10 0 10) \<lparr>vec_x = 20, vec_y = 20\<rparr> CENTER
     = Inr (LRBT (-5) 15 15 (-5)) \<and>
   rect_width (LRBT (-5) 15 15 (-5)) = 20 \<and>
   rect_height (LRBT (-5) 15 15 (-5)) = -20 \<and>
   rect_scale (LRBT 0 10 0 10) 2 BOTTOM_LEFT = LRBT 0 20 20 0 \<and>
   anchor_point (LRBT 0 10 0 10) BOTTOM_LEFT = \<lparr>vec_x = 0, vec_y = 0\<rparr> \<and>
   anchor_point (LRBT 0 20 20 0) BOTTOM_LEFT = \<lparr>vec_x = 0, vec_y = 20\<rparr>"
  by (simp add: rect_resize_def rect_scale_def anchor_point_def LRBT_def CENTER_def
        BOTTOM_LEFT_def Let_def)

text \<open>
  Moving a rect made by \<open>XYWH\<close> there and back gives the same rect: \<open>rect_move\<close>
  rebuilds through \<open>XYWH\<close> from the stored centre and size.
\<close>

lemma move_back_XYWH:
  "rect_move (rect_move (XYWH x y w h) dx dy) (- dx) (- dy) = XYWH x y w h"
  by (simp add: rect_move_def XYWH_def Let_def)

text \<open>
  C5. \<open>move(dx, dy)\<close> should translate a rect made by any constructor, and moving
  by (dx, dy) and then by (-dx, -dy) should give the rect back. \<open>rect_move\<close>
  rebuilds through \<open>XYWH\<close>, which takes the vertical bounds from the width:
  \<open>LRBT(0, 2, 0, 4)\<close>, of bottom 0 and top 4, moved by (1, 1) has bottom 2 and
  top 4, and moved back by (-1, -1) has bottom 1 and top 3.
\<close>

theorem move_and_back_changes_rect:
  "rect_move (LRBT 0 2 0 4) 1 1 = XYWH 2 3 2 4 \<and>
   rect_bottom (LRBT 0 2 0 4) = 0 \<and> rect_top (LRBT 0 2 0 4) = 4 \<and>
   rect_bottom (rect_move (LRBT 0 2 0 4) 1 1) = 2 \<and>
   rect_top (rect_move (LRBT 0 2 0 4) 1 1) = 4 \<and>
   rect_bottom (rect_move (rect_move (LRBT 0 2 0 4) 1 1) (-1) (-1)) = 1 \<and>
   rect_top (rect_move (rect_move (LRBT 0 2 0 4) 1 1) (-1) (-1)) = 3 \<and>
   rect_move (rect_move (LRBT 0 2 0 4) 1 1) (-1) (-1) \<noteq> LRBT 0 2 0 4"
  by (simp add: rect_move_def XYWH_def LRBT_def Let_def)


section \<open>Properties of the size limits\<close>

text \<open>
  A ceiling of exactly zero is falsy for \<^verbatim>\<open>width or float("inf")\<close>, so
  \<open>rect_max_size\<close> treats it as no ceiling.
\<close>

lemma max_size_zero_ceiling:
  "rect_width (rect_max_size (LRBT 0 10 0 10) (Some 0) None) = 10"
  by (simp add: rect_max_size_def py_or_inf_def min_inf_def LBWH_def LRBT_def Let_def)

text \<open>
  C7, as amended. \<open>min_size\<close> and \<open>max_size\<close> keep left and bottom. \<open>min_size\<close>
  takes, in each dimension, the maximum of the stored size and the floor, the floor
  being 0 where no argument is given; so a dimension with no argument is unchanged
  when it is not negative. \<open>max_size\<close> takes the minimum of the stored size and a
  ceiling that is given and not zero, and leaves a dimension with no argument
  unchanged.
\<close>

theorem size_limits_clamp:
  "rect_left (rect_min_size r w h) = rect_left r \<and>
   rect_bottom (rect_min_size r w h) = rect_bottom r \<and>
   rect_width (rect_min_size r w h)
     = max (case w of None \<Rightarrow> 0 | Some a \<Rightarrow> a) (rect_width r) \<and>
   rect_height (rect_min_size r w h)
     = max (case h of None \<Rightarrow> 0 | Some a \<Rightarrow> a) (rect_height r) \<and>
   (0 \<le> rect_width r \<longrightarrow> rect_width (rect_min_size r None h) = rect_width r) \<and>
   (0 \<le> rect_height r \<longrightarrow> rect_height (rect_min_size r w None) = rect_height r) \<and>
   rect_left (rect_max_size r w h) = rect_left r \<and>
   rect_bottom (rect_max_size r w h) = rect_bottom r \<and>
   (c \<noteq> 0 \<longrightarrow> rect_width (rect_max_size r (Some c) h) = min c (rect_width r)) \<and>
   (d \<noteq> 0 \<longrightarrow> rect_height (rect_max_size r w (Some d)) = min d (rect_height r)) \<and>
   rect_width (rect_max_size r None h) = rect_width r \<and>
   rect_height (rect_max_size r w None) = rect_height r"
  by (simp add: rect_min_size_def rect_max_size_def py_or_def py_or_inf_def min_inf_def
        LBWH_def Let_def split: option.split)

text \<open>
  The amended C7 at \<open>LRBT(0, 10, 0, 6)\<close>, with floors 12 and 7 and ceilings 4 and 8.
\<close>

theorem size_limits_clamp_witness:
  "(0::real) \<le> rect_width (LRBT 0 10 0 6) \<and> (0::real) \<le> rect_height (LRBT 0 10 0 6) \<and>
   (4::real) \<noteq> 0 \<and> (8::real) \<noteq> 0 \<and>
   rect_width (rect_min_size (LRBT 0 10 0 6) None (Some 7)) = 10 \<and>
   rect_height (rect_min_size (LRBT 0 10 0 6) (Some 12) None) = 6 \<and>
   rect_width (rect_min_size (LRBT 0 10 0 6) (Some 12) None) = 12 \<and>
   rect_width (rect_max_size (LRBT 0 10 0 6) (Some 4) None) = 4 \<and>
   rect_height (rect_max_size (LRBT 0 10 0 6) None (Some 8)) = 6"
  using size_limits_clamp [of "LRBT 0 10 0 6" "Some 12" "None" 4 8]
        size_limits_clamp [of "LRBT 0 10 0 6" "None" "Some 7" 4 8]
  by (simp add: LRBT_def)

text \<open>
  C7 as stated fails: a dimension with no argument does not always pass through
  unchanged. \<open>LRBT(10, 5, 0, 1)\<close> has width -5, and \<open>min_size()\<close> makes it 0.
\<close>

theorem min_size_clamps_negative_width:
  "rect_width (LRBT 10 5 0 1) = -5 \<and>
   rect_width (rect_min_size (LRBT 10 5 0 1) None None) = 0 \<and>
   rect_width (rect_min_size (LRBT 10 5 0 1) None None) \<noteq> rect_width (LRBT 10 5 0 1)"
  by (simp add: rect_min_size_def py_or_def LBWH_def LRBT_def Let_def)


section \<open>Properties of the rect queries\<close>

text \<open>
  C3, as amended. \<open>a.intersect(b)\<close> is absent exactly when \<open>a.collides(b)\<close> is
  false, where \<open>collides\<close> compares the edges and counts touching edges;
  \<open>overlaps\<close> is true exactly when the union has positive width or positive height.
\<close>

theorem intersect_absent_iff_not_collides:
  "(rect_intersect a b = None \<longleftrightarrow> \<not> rect_collides a b) \<and>
   (rect_collides a b \<longleftrightarrow>
      rect_right a \<ge> rect_left b \<and> rect_right b \<ge> rect_left a \<and>
      rect_top a \<ge> rect_bottom b \<and> rect_top b \<ge> rect_bottom a) \<and>
   (rect_overlaps a b \<longleftrightarrow>
      rect_width (rect_union a b) > 0 \<or> rect_height (rect_union a b) > 0)"
  by (auto simp add: rect_intersect_def rect_collides_def rect_overlaps_def Let_def)

text \<open>
  C3 as stated fails: the unit squares at (0, 0) and at (5, 5) have no intersection,
  and \<open>overlaps\<close> is true of them, their union being 6 wide.
\<close>

theorem intersect_absent_but_overlaps:
  "\<not> (rect_intersect (LRBT 0 1 0 1) (LRBT 5 6 5 6) = None
       \<longleftrightarrow> \<not> rect_overlaps (LRBT 0 1 0 1) (LRBT 5 6 5 6))"
  by (simp add: rect_intersect_def rect_collides_def rect_overlaps_def rect_union_def
        LRBT_def Let_def)

text \<open>
  C6, as amended. Every rect is truthy: \<open>Rect\<close> defines no \<^verbatim>\<open>__bool__\<close>, and a
  named tuple of eight fields is not empty.
\<close>

theorem rect_always_truthy: "rect_bool r"
  by (simp add: rect_bool_def rect_len_def)

text \<open>
  C6 as stated fails: \<open>LRBT(0, 0, 0, 0)\<close> has width 0 and height 0 and is truthy.
\<close>

theorem zero_size_rect_is_truthy:
  "\<not> (rect_bool (LRBT 0 0 0 0) = False \<longleftrightarrow>
       rect_width (LRBT 0 0 0 0) = 0 \<or> rect_height (LRBT 0 0 0 0) = 0)"
  by (simp add: rect_bool_def rect_len_def LRBT_def Let_def)


section \<open>Properties of the box queries\<close>

text \<open>
  C8. Two boxes overlap exactly when, on each of the three axes, half the sum of
  their extents is strictly more than the distance of their centres. The
  intersection is absent exactly when they do not overlap; when they do, it is the
  box whose lower bounds are the larger of the two lower bounds and whose upper
  bounds are the smaller of the two upper bounds on each axis, with the size and the
  centre that \<open>LRBTNF\<close> derives from these six bounds.
\<close>

theorem box_overlaps_and_intersection:
  "(box_overlaps a b \<longleftrightarrow>
      (box_width a + box_width b) / 2 > \<bar>box_x a - box_x b\<bar> \<and>
      (box_height a + box_height b) / 2 > \<bar>box_y a - box_y b\<bar> \<and>
      (box_depth a + box_depth b) / 2 > \<bar>box_z a - box_z b\<bar>) \<and>
   (box_intersection a b = None \<longleftrightarrow> \<not> box_overlaps a b) \<and>
   (box_overlaps a b \<longrightarrow>
      box_intersection a b =
        Some \<lparr>box_left = max (box_left a) (box_left b),
              box_right = min (box_right a) (box_right b),
              box_bottom = max (box_bottom a) (box_bottom b),
              box_top = min (box_top a) (box_top b),
              box_near = max (box_near a) (box_near b),
              box_far = min (box_far a) (box_far b),
              box_width = min (box_right a) (box_right b) - max (box_left a) (box_left b),
              box_height = min (box_top a) (box_top b) - max (box_bottom a) (box_bottom b),
              box_depth = min (box_far a) (box_far b) - max (box_near a) (box_near b),
              box_x = max (box_left a) (box_left b)
                + (min (box_right a) (box_right b) - max (box_left a) (box_left b)) / 2,
              box_y = max (box_bottom a) (box_bottom b)
                + (min (box_top a) (box_top b) - max (box_bottom a) (box_bottom b)) / 2,
              box_z = max (box_near a) (box_near b)
                + (min (box_far a) (box_far b) - max (box_near a) (box_near b)) / 2\<rparr>)"
  by (simp add: box_overlaps_def box_intersection_def LRBTNF_def Let_def add.commute)

text \<open>
  C8 at the cubes of side 10 centred at the origin and at (5, 5, 5): they overlap, in
  the cube from 0 to 5 on each axis, of side 5 and centre (5/2, 5/2, 5/2).
\<close>

theorem box_overlaps_and_intersection_witness:
  "box_overlaps (XYZWHD 0 0 0 10 10 10) (XYZWHD 5 5 5 10 10 10) \<and>
   box_intersection (XYZWHD 0 0 0 10 10 10) (XYZWHD 5 5 5 10 10 10)
     = Some \<lparr>box_left = 0, box_right = 5, box_bottom = 0, box_top = 5,
             box_near = 0, box_far = 5,
             box_width = 5, box_height = 5, box_depth = 5,
             box_x = 5 / 2, box_y = 5 / 2, box_z = 5 / 2\<rparr>"
proof -
  let ?a = "XYZWHD 0 0 0 10 10 10"
  let ?b = "XYZWHD 5 5 5 10 10 10"
  have ov: "box_overlaps ?a ?b"
    by (simp add: box_overlaps_def XYZWHD_def Let_def)
  have bounds:
    "box_left ?a = -5" "box_right ?a = 5" "box_bottom ?a = -5" "box_top ?a = 5"
    "box_near ?a = -5" "box_far ?a = 5"
    "box_left ?b = 0" "box_right ?b = 10" "box_bottom ?b = 0" "box_top ?b = 10"
    "box_near ?b = 0" "box_far ?b = 10"
    by (simp_all add: XYZWHD_def Let_def)
  from box_overlaps_and_intersection [of ?a ?b] ov
  show ?thesis
    unfolding bounds by simp
qed

text \<open>
  C10. \<open>point_in_box\<close>, and with it the \<^verbatim>\<open>in\<close> operator, compares with \<open>\<le>\<close>: a
  point is in the box exactly when each coordinate lies between the two bounds of its
  axis, the bounds included. So a point of a face of a box (whose lower bounds do not
  exceed the upper ones) is in the box. \<open>point_in_rect\<close> compares with \<open><\<close>, and a
  point with a coordinate on an edge of the rect is not in it.
\<close>

theorem box_bounds_closed_rect_bounds_open:
  "(point_in_box b (px, py, pz) \<longleftrightarrow>
      box_left b \<le> px \<and> px \<le> box_right b \<and>
      box_bottom b \<le> py \<and> py \<le> box_top b \<and>
      box_near b \<le> pz \<and> pz \<le> box_far b) \<and>
   box_contains b p = point_in_box b p \<and>
   (box_left b \<le> box_right b \<and> box_bottom b \<le> py \<and> py \<le> box_top b \<and>
    box_near b \<le> pz \<and> pz \<le> box_far b \<longrightarrow>
      point_in_box b (box_left b, py, pz) \<and> point_in_box b (box_right b, py, pz)) \<and>
   (box_bottom b \<le> box_top b \<and> box_left b \<le> px \<and> px \<le> box_right b \<and>
    box_near b \<le> pz \<and> pz \<le> box_far b \<longrightarrow>
      point_in_box b (px, box_bottom b, pz) \<and> point_in_box b (px, box_top b, pz)) \<and>
   (box_near b \<le> box_far b \<and> box_left b \<le> px \<and> px \<le> box_right b \<and>
    box_bottom b \<le> py \<and> py \<le> box_top b \<longrightarrow>
      point_in_box b (px, py, box_near b) \<and> point_in_box b (px, py, box_far b)) \<and>
   (point_in_rect r q \<longleftrightarrow>
      rect_left r < vec_x q \<and> vec_x q < rect_right r \<and>
      rect_bottom r < vec_y q \<and> vec_y q < rect_top r) \<and>
   (vec_x q = rect_left r \<or> vec_x q = rect_right r \<or>
    vec_y q = rect_bottom r \<or> vec_y q = rect_top r \<longrightarrow> \<not> point_in_rect r q)"
  by (auto simp add: point_in_box_def box_contains_def point_in_rect_def)

text \<open>
  C10 at the cube of side 10 centred at the origin, whose corners (-5, -5, -5) and
  (5, 5, 5) and whose face point (-5, 0, 0) are in it, and at the square
  \<open>LRBT(0, 10, 0, 10)\<close>, whose edge point (0, 5) is not in it.
\<close>

theorem box_bounds_closed_rect_bounds_open_witness:
  "point_in_box (XYZWHD 0 0 0 10 10 10) (-5, -5, -5) \<and>
   point_in_box (XYZWHD 0 0 0 10 10 10) (5, 5, 5) \<and>
   point_in_box (XYZWHD 0 0 0 10 10 10) (-5, 0, 0) \<and>
   \<not> point_in_rect (LRBT 0 10 0 10) \<lparr>vec_x = 0, vec_y = 5\<rparr>"
  using box_bounds_closed_rect_bounds_open
          [where b = "XYZWHD 0 0 0 10 10 10" and px = "-5" and py = "-5" and pz = "-5"
             and r = "LRBT 0 10 0 10" and q = "\<lparr>vec_x = 0, vec_y = 5\<rparr>"]
        box_bounds_closed_rect_bounds_open
          [where b = "XYZWHD 0 0 0 10 10 10" and px = "5" and py = "5" and pz = "5"
             and r = "LRBT 0 10 0 10" and q = "\<lparr>vec_x = 0, vec_y = 5\<rparr>"]
        box_bounds_closed_rect_bounds_open
          [where b = "XYZWHD 0 0 0 10 10 10" and px = "-5" and py = "0" and pz = "0"
             and r = "LRBT 0 10 0 10" and q = "\<lparr>vec_x = 0, vec_y = 5\<rparr>"]
  by (simp add: XYZWHD_def LRBT_def Let_def)


section \<open>Properties of the parabola\<close>

text \<open>
  C9. \<open>draw_parabola_filled\<close> is one call of the arc primitive, with centre
  ((start_x + end_x)/2, start_y + height), width start_x - end_x, the given height and
  colour, the angles 0 and 180 and the given tilt angle: whatever the primitive does
  to the window, the parabola does that and nothing more, and with the primitive that
  records its calls, exactly this one call is added to the record.
\<close>

theorem parabola_forwards_to_arc:
  "draw_parabola_filled arc start_x start_y end_x height color tilt_angle window =
     arc ((start_x + end_x) / 2) (start_y + height) (start_x - end_x) height color 0 180
       tilt_angle window \<and>
   draw_parabola_filled log_arc_filled start_x start_y end_x height color tilt_angle calls =
     calls @ [ArcFilled ((start_x + end_x) / 2) (start_y + height) (start_x - end_x) height
                color 0 180 tilt_angle]"
  by (simp add: draw_parabola_filled_def log_arc_filled_def Let_def)

end
